theory Spec2Isabelle
  imports Main
begin

section \<open>Identifiers, errors and documents\<close>

text \<open>
  An \<open>ObjectId\<close> is the document store's opaque identifier. The only things the code
  does with one are to compare it (directly in a filter, or through \<open>toString\<close>, which
  is injective) and to build it from the text of a request parameter.
\<close>

type_synonym ObjectId = nat

text \<open>
  The text of a request parameter that is meant as an identifier: \<open>Hex i\<close> is the
  text that denotes the identifier \<open>i\<close>, \<open>Malformed t\<close> is any other text \<open>t\<close>
  (the empty text among them).
\<close>

datatype idstring = Hex ObjectId | Malformed string

text \<open>
  A message is a template literal: fixed text and interpolated identifiers or names.
\<close>

datatype part = Lit string | Oid ObjectId

type_synonym message = "part list"

text \<open>
  Modelled from the spec: the error classes of \<open>concepts/errors\<close> (NotFound,
  NotAllowed, Unauthenticated) are imported by the sources but not among them.
  \<open>UserCreatorNotMatchError\<close> is declared in the project concept as a subclass of
  \<open>NotAllowedError\<close>, with the user and the project identifier as its arguments.
  \<open>BSONError\<close> is what the identifier constructor throws on a malformed text,
  \<open>TypeError\<close> what the language throws on a method call on \<open>undefined\<close>.
\<close>

datatype error =
    NotFoundError message
  | NotAllowedError message
  | UserCreatorNotMatchError ObjectId ObjectId
  | UnauthenticatedError
  | BSONError
  | TypeError

text \<open>
  Documents. Every document has the base shape with the identifier \<open>_id\<close> (here
  \<open>oid\<close>); the two timestamps of the base shape are never read by the concepts below
  and are left out.
\<close>

record BaseDoc =
  oid :: ObjectId

record ProjectDoc = BaseDoc +
  creator :: ObjectId
  name :: string

record GroupItemDoc = BaseDoc +
  group :: ObjectId
  item :: ObjectId

record TaskDoc = BaseDoc +
  description :: string
  project :: ObjectId
  assignee :: "ObjectId option"
  completion :: bool

record SessionDoc =
  user :: "ObjectId option"

section \<open>The database and asynchronous actions\<close>

text \<open>
  The database holds the three collections that the application creates for the
  project and task concepts (projects, project members and tasks) and the supply of
  fresh identifiers. A collection is the list of its documents in insertion
  order.
\<close>

record database =
  projects :: "ProjectDoc list"
  projectmembers :: "GroupItemDoc list"
  tasks :: "TaskDoc list"
  next_oid :: ObjectId

text \<open>
  An asynchronous function runs on the database and either resolves with a value or
  rejects with an error. There is no transaction: what was written before an error
  stays written, so the database is returned in both cases.
\<close>

type_synonym 'a async = "database \<Rightarrow> (error + 'a) \<times> database"

definition resolve :: "'a \<Rightarrow> 'a async" where
  "resolve v s = (Inr v, s)"

definition throw :: "error \<Rightarrow> 'a async" where
  "throw e s = (Inl e, s)"

definition await :: "'a async \<Rightarrow> ('a \<Rightarrow> 'b async) \<Rightarrow> 'b async" where
  "await m k s = (case m s of (Inl e, s') \<Rightarrow> (Inl e, s') | (Inr v, s') \<Rightarrow> k v s')"

text \<open>A synchronous call that may throw, followed by the rest of the function.\<close>

definition attempt :: "error + 'a \<Rightarrow> ('a \<Rightarrow> 'b async) \<Rightarrow> 'b async" where
  "attempt r k = (case r of Inl e \<Rightarrow> throw e | Inr v \<Rightarrow> k v)"

text \<open>The body of a \<open>for\<close> loop over an array, one awaited call per element.\<close>

primrec for_each :: "'a list \<Rightarrow> ('a \<Rightarrow> 'b async) \<Rightarrow> unit async" where
  "for_each [] body = resolve ()"
| "for_each (x # xs) body = await (body x) (\<lambda>_. for_each xs body)"

section \<open>The document collection\<close>

text \<open>
  Modelled from the spec: the class \<open>DocCollection\<close> of \<open>framework/doc\<close> is
  imported by every concept but is not among the sources. The spec describes it as a
  generic collection abstraction supporting create-one, read-one, read-many,
  partial-update-one, delete-one and delete-many, keyed by an opaque unique identifier
  and arbitrary field filters. A handle names one collection of the database; a filter
  is a predicate on documents; a partial update sets the given fields of the first
  document that matches. None of these operations fails.
\<close>

record 'd DocCollection =
  docs_of :: "database \<Rightarrow> 'd list"
  with_docs :: "'d list \<Rightarrow> database \<Rightarrow> database"

primrec remove_first :: "('d \<Rightarrow> bool) \<Rightarrow> 'd list \<Rightarrow> 'd list" where
  "remove_first p [] = []"
| "remove_first p (d # ds) = (if p d then ds else d # remove_first p ds)"

primrec update_first :: "('d \<Rightarrow> bool) \<Rightarrow> ('d \<Rightarrow> 'd) \<Rightarrow> 'd list \<Rightarrow> 'd list" where
  "update_first p upd [] = []"
| "update_first p upd (d # ds) = (if p d then upd d # ds else d # update_first p upd ds)"

definition createOne :: "'d DocCollection \<Rightarrow> (ObjectId \<Rightarrow> 'd) \<Rightarrow> ObjectId async" where
  "createOne c mk s =
     (let i = next_oid s
      in (Inr i, with_docs c (docs_of c s @ [mk i]) (s\<lparr>next_oid := Suc i\<rparr>)))"

definition readOne :: "'d DocCollection \<Rightarrow> ('d \<Rightarrow> bool) \<Rightarrow> 'd option async" where
  "readOne c p s = (Inr (find p (docs_of c s)), s)"

definition readMany :: "'d DocCollection \<Rightarrow> ('d \<Rightarrow> bool) \<Rightarrow> 'd list async" where
  "readMany c p s = (Inr (filter p (docs_of c s)), s)"

definition partialUpdateOne :: "'d DocCollection \<Rightarrow> ('d \<Rightarrow> bool) \<Rightarrow> ('d \<Rightarrow> 'd) \<Rightarrow> unit async" where
  "partialUpdateOne c p upd s = (Inr (), with_docs c (update_first p upd (docs_of c s)) s)"

definition deleteOne :: "'d DocCollection \<Rightarrow> ('d \<Rightarrow> bool) \<Rightarrow> unit async" where
  "deleteOne c p s = (Inr (), with_docs c (remove_first p (docs_of c s)) s)"

definition deleteMany :: "'d DocCollection \<Rightarrow> ('d \<Rightarrow> bool) \<Rightarrow> unit async" where
  "deleteMany c p s = (Inr (), with_docs c (filter (\<lambda>d. \<not> p d) (docs_of c s)) s)"

section \<open>Concept: Project\<close>

type_synonym ProjectConcept = "ProjectDoc DocCollection"

definition assertProjectNameUnique :: "ProjectConcept \<Rightarrow> string \<Rightarrow> unit async" where
  "assertProjectNameUnique this nm =
     await (readOne this (\<lambda>d. name d = nm)) (\<lambda>found.
       if found \<noteq> None
       then throw (NotAllowedError
              [Lit ''Project with name '', Lit nm,
               Lit '' already exists! Please choose a different name.''])
       else resolve ())"

definition ProjectConcept_create ::
  "ProjectConcept \<Rightarrow> ObjectId \<Rightarrow> string \<Rightarrow> (string \<times> ProjectDoc option) async" where
  "ProjectConcept_create this cr nm =
     await (assertProjectNameUnique this nm) (\<lambda>_.
     await (createOne this (\<lambda>i. \<lparr>oid = i, creator = cr, name = nm\<rparr>)) (\<lambda>i.
     await (readOne this (\<lambda>d. oid d = i)) (\<lambda>p.
       resolve (''Project successfully created!'', p))))"

definition ProjectConcept_getProject :: "ProjectConcept \<Rightarrow> ObjectId \<Rightarrow> ProjectDoc option async" where
  "ProjectConcept_getProject this i = readOne this (\<lambda>d. oid d = i)"

definition getProjectByName :: "ProjectConcept \<Rightarrow> string \<Rightarrow> ProjectDoc list async" where
  "getProjectByName this nm = readMany this (\<lambda>d. name d = nm)"

definition ProjectConcept_updateProjectName ::
  "ProjectConcept \<Rightarrow> ObjectId \<Rightarrow> string \<Rightarrow> string async" where
  "ProjectConcept_updateProjectName this i nm =
     await (assertProjectNameUnique this nm) (\<lambda>_.
     await (partialUpdateOne this (\<lambda>d. oid d = i) (\<lambda>d. d\<lparr>name := nm\<rparr>)) (\<lambda>_.
       resolve ''Project name successfully updated!''))"

definition updateProjectCreator :: "ProjectConcept \<Rightarrow> ObjectId \<Rightarrow> ObjectId \<Rightarrow> string async" where
  "updateProjectCreator this i cr =
     await (partialUpdateOne this (\<lambda>d. oid d = i) (\<lambda>d. d\<lparr>creator := cr\<rparr>)) (\<lambda>_.
       resolve ''Project manager successfully updated!'')"

definition ProjectConcept_deleteProject :: "ProjectConcept \<Rightarrow> ObjectId \<Rightarrow> string async" where
  "ProjectConcept_deleteProject this i =
     await (deleteOne this (\<lambda>d. oid d = i)) (\<lambda>_.
       resolve ''Project successfully deleted!'')"

definition assertUserIsCreator :: "ProjectConcept \<Rightarrow> ObjectId \<Rightarrow> ObjectId \<Rightarrow> unit async" where
  "assertUserIsCreator this i u =
     await (readOne this (\<lambda>d. oid d = i)) (\<lambda>found.
       case found of
         None \<Rightarrow> throw (NotFoundError [Lit ''Project '', Oid i, Lit '' does not exist!''])
       | Some p \<Rightarrow>
           if creator p \<noteq> u then throw (UserCreatorNotMatchError u i) else resolve ())"

section \<open>Concept: Grouping\<close>

type_synonym GroupItemConcept = "GroupItemDoc DocCollection"

definition addGroupItem :: "GroupItemConcept \<Rightarrow> ObjectId \<Rightarrow> ObjectId \<Rightarrow> string async" where
  "addGroupItem this g i =
     await (createOne this (\<lambda>n. \<lparr>oid = n, group = g, item = i\<rparr>)) (\<lambda>_.
       resolve ''Added item to group!'')"

definition removeGroupItem :: "GroupItemConcept \<Rightarrow> ObjectId \<Rightarrow> ObjectId \<Rightarrow> string async" where
  "removeGroupItem this g i =
     await (deleteOne this (\<lambda>d. group d = g \<and> item d = i)) (\<lambda>_.
       resolve ''Removed item from group!'')"

definition getGroupsForItem :: "GroupItemConcept \<Rightarrow> ObjectId \<Rightarrow> GroupItemDoc list async" where
  "getGroupsForItem this i = readMany this (\<lambda>d. item d = i)"

definition deleteAllItemsInGroup :: "GroupItemConcept \<Rightarrow> ObjectId \<Rightarrow> string async" where
  "deleteAllItemsInGroup this g =
     await (deleteMany this (\<lambda>d. group d = g)) (\<lambda>_.
       resolve ''Deleted all instances of group!'')"

definition deleteItemFromAllGroups :: "GroupItemConcept \<Rightarrow> ObjectId \<Rightarrow> string async" where
  "deleteItemFromAllGroups this i =
     await (deleteMany this (\<lambda>d. item d = i)) (\<lambda>_.
       resolve ''Deleted all instances of item!'')"

definition assertItemInGroup :: "GroupItemConcept \<Rightarrow> ObjectId \<Rightarrow> ObjectId \<Rightarrow> unit async" where
  "assertItemInGroup this g i =
     await (readOne this (\<lambda>d. group d = g \<and> item d = i)) (\<lambda>pair.
       if pair = None
       then throw (NotFoundError [Lit ''Item '', Oid i, Lit '' not in group '', Oid g, Lit ''!''])
       else resolve ())"

section \<open>Concept: Tasking\<close>

type_synonym TaskingConcept = "TaskDoc DocCollection"

definition TaskingConcept_create ::
  "TaskingConcept \<Rightarrow> string \<Rightarrow> ObjectId \<Rightarrow> ObjectId option \<Rightarrow> (string \<times> TaskDoc option) async" where
  "TaskingConcept_create this descr pr asg =
     await (createOne this (\<lambda>i. \<lparr>oid = i, description = descr, project = pr,
                                  assignee = asg, completion = False\<rparr>)) (\<lambda>i.
     await (readOne this (\<lambda>d. oid d = i)) (\<lambda>t.
       resolve (''Task successfully created!'', t)))"

definition TaskingConcept_delete :: "TaskingConcept \<Rightarrow> ObjectId \<Rightarrow> string async" where
  "TaskingConcept_delete this i =
     await (deleteOne this (\<lambda>d. oid d = i)) (\<lambda>_.
       resolve ''Task deleted successfully!'')"

definition deleteTasksForProject :: "TaskingConcept \<Rightarrow> ObjectId \<Rightarrow> string async" where
  "deleteTasksForProject this pr =
     await (deleteMany this (\<lambda>d. project d = pr)) (\<lambda>_.
       resolve ''Tasks for project successfully deleted.'')"

definition updateDescription :: "TaskingConcept \<Rightarrow> ObjectId \<Rightarrow> string \<Rightarrow> string async" where
  "updateDescription this i descr =
     await (partialUpdateOne this (\<lambda>d. oid d = i) (\<lambda>d. d\<lparr>description := descr\<rparr>)) (\<lambda>_.
       resolve ''Task description successfully updated!'')"

definition updateAssignee :: "TaskingConcept \<Rightarrow> ObjectId \<Rightarrow> ObjectId \<Rightarrow> string async" where
  "updateAssignee this i asg =
     await (partialUpdateOne this (\<lambda>d. oid d = i) (\<lambda>d. d\<lparr>assignee := Some asg\<rparr>)) (\<lambda>_.
       resolve ''Task assignee successfully updated!'')"

definition getTask :: "TaskingConcept \<Rightarrow> ObjectId \<Rightarrow> TaskDoc option async" where
  "getTask this i = readOne this (\<lambda>d. oid d = i)"

text \<open>
  Modelled from the spec: the effect of a partial update whose field is given as
  \<open>undefined\<close>. It is decided in \<open>framework/doc\<close> and the store's driver, which
  are not among the sources; the spec says that \<open>unassignTask\<close> sets the assignee to
  absent. The function itself is the source's: it binds \<open>assignee\<close> to
  \<open>undefined\<close> and passes \<open>{ assignee }\<close> as the update of the task.
\<close>

definition TaskingConcept_unassignTask :: "TaskingConcept \<Rightarrow> ObjectId \<Rightarrow> string async" where
  "TaskingConcept_unassignTask this i =
     (let asg = None
      in await (partialUpdateOne this (\<lambda>d. oid d = i) (\<lambda>d. d\<lparr>assignee := asg\<rparr>)) (\<lambda>_.
           resolve ''TODO: partial update to null or undefined?''))"

definition setCompletionStatus :: "TaskingConcept \<Rightarrow> ObjectId \<Rightarrow> bool \<Rightarrow> string async" where
  "setCompletionStatus this i c =
     await (partialUpdateOne this (\<lambda>d. oid d = i) (\<lambda>d. d\<lparr>completion := c\<rparr>)) (\<lambda>_.
       if c then resolve ''Task marked as completed!'' else resolve ''Task marked incomplete.'')"

definition getAllTasksForProject :: "TaskingConcept \<Rightarrow> ObjectId \<Rightarrow> TaskDoc list async" where
  "getAllTasksForProject this pr = readMany this (\<lambda>d. project d = pr)"

section \<open>The application: concept instances\<close>

definition Project :: ProjectConcept where
  "Project = \<lparr>docs_of = projects, with_docs = (\<lambda>ds s. s\<lparr>projects := ds\<rparr>)\<rparr>"

definition ProjectMember :: GroupItemConcept where
  "ProjectMember = \<lparr>docs_of = projectmembers, with_docs = (\<lambda>ds s. s\<lparr>projectmembers := ds\<rparr>)\<rparr>"

definition Task :: TaskingConcept where
  "Task = \<lparr>docs_of = tasks, with_docs = (\<lambda>ds s. s\<lparr>tasks := ds\<rparr>)\<rparr>"

text \<open>
  The routes import \<open>TaskAssignee\<close> from the application module. That module is
  among the sources in full, and it exports \<open>Sessioning\<close>, \<open>Authing\<close>, \<open>Posting\<close>,
  \<open>Friending\<close>, \<open>Project\<close>, \<open>ProjectMember\<close> and \<open>Task\<close>, and no
  \<open>TaskAssignee\<close>: in the routes the imported binding is \<open>undefined\<close>, no collection
  of assignee links exists, and a method call on the binding throws a TypeError before
  the method runs.
\<close>

definition TaskAssignee :: "GroupItemConcept option" where
  "TaskAssignee = None"

text \<open>A method call \<open>obj.method(...)\<close> on a binding that may be \<open>undefined\<close>.\<close>

definition invoke :: "'c option \<Rightarrow> ('c \<Rightarrow> 'a async) \<Rightarrow> 'a async" where
  "invoke obj method = (case obj of None \<Rightarrow> throw TypeError | Some this \<Rightarrow> method this)"

section \<open>Sessions and request parameters\<close>

text \<open>
  Modelled from the spec: the session concept is not among the sources. The spec says
  that \<open>getUser(session)\<close> fails with Unauthorized if the session has no active user.
\<close>

definition Sessioning_getUser :: "SessionDoc \<Rightarrow> error + ObjectId" where
  "Sessioning_getUser session =
     (case user session of None \<Rightarrow> Inl UnauthenticatedError | Some u \<Rightarrow> Inr u)"

text \<open>
  Modelled from the spec: \<open>new ObjectId(text)\<close> is the store's identifier
  constructor. The spec says that identifiers cross the boundary as opaque strings and
  are parsed at the edge, and that a malformed identifier fails the request.
\<close>

fun ObjectId_new :: "idstring \<Rightarrow> error + ObjectId" where
  "ObjectId_new (Hex i) = Inr i"
| "ObjectId_new (Malformed t) = Inl BSONError"

text \<open>
  The test \<open>if (x)\<close> on an optional string parameter: an absent parameter and the
  empty string are both falsy. The result is the parameter when it is truthy.
\<close>

fun truthy_string :: "string option \<Rightarrow> string option" where
  "truthy_string None = None"
| "truthy_string (Some []) = None"
| "truthy_string (Some (c # cs)) = Some (c # cs)"

fun truthy_id :: "idstring option \<Rightarrow> idstring option" where
  "truthy_id None = None"
| "truthy_id (Some (Malformed [])) = None"
| "truthy_id (Some i) = Some i"

section \<open>Routes\<close>

definition createProject :: "SessionDoc \<Rightarrow> string \<Rightarrow> (string \<times> ProjectDoc option) async" where
  "createProject session nm =
     attempt (Sessioning_getUser session) (\<lambda>u.
     await (ProjectConcept_create Project u nm) (\<lambda>created.
     await (case snd created of
              Some p \<Rightarrow> await (addGroupItem ProjectMember (oid p) u) (\<lambda>_. resolve ())
            | None \<Rightarrow> resolve ()) (\<lambda>_.
       resolve (''Successfully created project!'', snd created))))"

text \<open>
  In \<open>deleteProject\<close> the test \<open>if (projectTasks)\<close> is on an array, which is always
  truthy, so the loop always runs.
\<close>

definition deleteProject :: "SessionDoc \<Rightarrow> idstring \<Rightarrow> string async" where
  "deleteProject session ident =
     attempt (Sessioning_getUser session) (\<lambda>u.
     attempt (ObjectId_new ident) (\<lambda>projectId.
     await (assertUserIsCreator Project projectId u) (\<lambda>_.
     await (deleteAllItemsInGroup ProjectMember projectId) (\<lambda>_.
     await (getAllTasksForProject Task projectId) (\<lambda>projectTasks.
     await (for_each projectTasks (\<lambda>task.
              invoke TaskAssignee (\<lambda>this. deleteAllItemsInGroup this (oid task)))) (\<lambda>_.
     await (deleteTasksForProject Task projectId) (\<lambda>_.
       ProjectConcept_deleteProject Project projectId)))))))"

text \<open>
  \<open>getProject\<close> returns one project or null on the path by identifier (\<open>Inl\<close>),
  and an array of projects on the path by name (\<open>Inr\<close>).
\<close>

definition getProject ::
  "SessionDoc \<Rightarrow> string option \<Rightarrow> idstring option \<Rightarrow> (ProjectDoc option + ProjectDoc list) async" where
  "getProject session nm ident =
     attempt (Sessioning_getUser session) (\<lambda>u.
       case truthy_id ident of
         Some i \<Rightarrow>
           attempt (ObjectId_new i) (\<lambda>projectId.
           await (assertItemInGroup ProjectMember projectId u) (\<lambda>_.
           await (ProjectConcept_getProject Project projectId) (\<lambda>p.
             resolve (Inl p))))
       | None \<Rightarrow>
          (case truthy_string nm of
             Some n \<Rightarrow> await (getProjectByName Project n) (\<lambda>ps. resolve (Inr ps))
           | None \<Rightarrow> throw (NotAllowedError [Lit ''Did not specify project to fetch!''])))"

definition updateProjectName :: "SessionDoc \<Rightarrow> idstring \<Rightarrow> string \<Rightarrow> string async" where
  "updateProjectName session ident nm =
     attempt (Sessioning_getUser session) (\<lambda>u.
     attempt (ObjectId_new ident) (\<lambda>projectId.
     await (assertUserIsCreator Project projectId u) (\<lambda>_.
       ProjectConcept_updateProjectName Project projectId nm)))"

definition updateProjectManager :: "SessionDoc \<Rightarrow> idstring \<Rightarrow> idstring \<Rightarrow> string async" where
  "updateProjectManager session ident manager =
     attempt (Sessioning_getUser session) (\<lambda>u.
     attempt (ObjectId_new ident) (\<lambda>projectId.
     await (assertUserIsCreator Project projectId u) (\<lambda>_.
     attempt (ObjectId_new manager) (\<lambda>managerId.
     await (assertItemInGroup ProjectMember projectId managerId) (\<lambda>_.
       updateProjectCreator Project projectId managerId)))))"

definition addMemberToProject :: "SessionDoc \<Rightarrow> idstring \<Rightarrow> idstring \<Rightarrow> string async" where
  "addMemberToProject session ident member =
     attempt (Sessioning_getUser session) (\<lambda>u.
     attempt (ObjectId_new ident) (\<lambda>projectId.
     attempt (ObjectId_new member) (\<lambda>newMember.
     await (assertUserIsCreator Project projectId u) (\<lambda>_.
       addGroupItem ProjectMember projectId newMember))))"

definition deleteMemberFromProject :: "SessionDoc \<Rightarrow> idstring \<Rightarrow> idstring \<Rightarrow> string async" where
  "deleteMemberFromProject session ident member =
     attempt (Sessioning_getUser session) (\<lambda>u.
     attempt (ObjectId_new ident) (\<lambda>projectId.
     attempt (ObjectId_new member) (\<lambda>memberToDelete.
     await (assertUserIsCreator Project projectId u) (\<lambda>_.
     await (invoke TaskAssignee (\<lambda>this. deleteItemFromAllGroups this memberToDelete)) (\<lambda>_.
       removeGroupItem ProjectMember projectId memberToDelete)))))"

definition createTask ::
  "SessionDoc \<Rightarrow> idstring \<Rightarrow> string \<Rightarrow> idstring option \<Rightarrow> (string \<times> TaskDoc option) async" where
  "createTask session pr descr asg =
     attempt (Sessioning_getUser session) (\<lambda>u.
     attempt (ObjectId_new pr) (\<lambda>projectId.
     await (assertUserIsCreator Project projectId u) (\<lambda>_.
     await (TaskingConcept_create Task descr projectId None) (\<lambda>task.
     await (case truthy_id asg of
              Some a \<Rightarrow>
                attempt (ObjectId_new a) (\<lambda>assigneeId.
                await (assertItemInGroup ProjectMember projectId assigneeId) (\<lambda>_.
                  case snd task of
                    None \<Rightarrow> throw (NotAllowedError [Lit ''Task not successfully created!''])
                  | Some t \<Rightarrow>
                      await (invoke TaskAssignee (\<lambda>this. addGroupItem this (oid t) assigneeId))
                        (\<lambda>_. resolve ())))
            | None \<Rightarrow> resolve ()) (\<lambda>_.
       resolve task)))))"

text \<open>
  The routes on one task first read the task for its project: \<open>(await
  Task.getTask(taskId))?.project\<close> is \<open>undefined\<close> when there is no such task.
\<close>

definition deleteTask :: "SessionDoc \<Rightarrow> idstring \<Rightarrow> unit async" where
  "deleteTask session task =
     attempt (Sessioning_getUser session) (\<lambda>u.
     attempt (ObjectId_new task) (\<lambda>taskId.
     await (getTask Task taskId) (\<lambda>t.
       case map_option project t of
         None \<Rightarrow> throw (NotAllowedError [Lit ''Task does not exist!''])
       | Some projectId \<Rightarrow>
           await (assertUserIsCreator Project projectId u) (\<lambda>_.
           await (invoke TaskAssignee (\<lambda>this. deleteAllItemsInGroup this taskId)) (\<lambda>_.
           await (TaskingConcept_delete Task taskId) (\<lambda>_.
             resolve ()))))))"

definition getTasksForProject :: "SessionDoc \<Rightarrow> idstring \<Rightarrow> TaskDoc list async" where
  "getTasksForProject session pr =
     attempt (Sessioning_getUser session) (\<lambda>u.
     attempt (ObjectId_new pr) (\<lambda>projectId.
     await (assertItemInGroup ProjectMember projectId u) (\<lambda>_.
       getAllTasksForProject Task projectId)))"

definition updateTaskDescription :: "SessionDoc \<Rightarrow> idstring \<Rightarrow> string \<Rightarrow> unit async" where
  "updateTaskDescription session task descr =
     attempt (Sessioning_getUser session) (\<lambda>u.
     attempt (ObjectId_new task) (\<lambda>taskId.
     await (getTask Task taskId) (\<lambda>t.
       case map_option project t of
         None \<Rightarrow> throw (NotAllowedError [Lit ''Task does not exist!''])
       | Some projectId \<Rightarrow>
           await (assertUserIsCreator Project projectId u) (\<lambda>_.
           await (updateDescription Task taskId descr) (\<lambda>_.
             resolve ())))))"

definition addTaskAssignee :: "SessionDoc \<Rightarrow> idstring \<Rightarrow> idstring \<Rightarrow> string async" where
  "addTaskAssignee session task asg =
     attempt (Sessioning_getUser session) (\<lambda>u.
     attempt (ObjectId_new task) (\<lambda>taskId.
     await (getTask Task taskId) (\<lambda>t.
       case map_option project t of
         None \<Rightarrow> throw (NotAllowedError [Lit ''Task does not exist!''])
       | Some projectId \<Rightarrow>
           await (assertUserIsCreator Project projectId u) (\<lambda>_.
           attempt (ObjectId_new asg) (\<lambda>assigneeId.
             invoke TaskAssignee (\<lambda>this. addGroupItem this taskId assigneeId))))))"

definition unassignTask :: "SessionDoc \<Rightarrow> idstring \<Rightarrow> string async" where
  "unassignTask session task =
     attempt (Sessioning_getUser session) (\<lambda>u.
     attempt (ObjectId_new task) (\<lambda>taskId.
     await (getTask Task taskId) (\<lambda>t.
       case map_option project t of
         None \<Rightarrow> throw (NotAllowedError [Lit ''Task does not exist!''])
       | Some projectId \<Rightarrow>
           await (assertUserIsCreator Project projectId u) (\<lambda>_.
             invoke TaskAssignee (\<lambda>this. deleteAllItemsInGroup this taskId)))))"

section \<open>Example databases\<close>

text \<open>
  Users 10, 11, 12 and 13. Project 20 (``roadmap'') was created by user 10 and has the
  members 10 and 12; project 21 (``garden'') was created by user 11 and has the members
  11 and 12. Task 40 belongs to project 20, task 41 to project 21. User 13 is a member
  of no project.
\<close>

definition example_db :: database where
  "example_db =
     \<lparr>projects = [\<lparr>oid = 20, creator = 10, name = ''roadmap''\<rparr>,
                  \<lparr>oid = 21, creator = 11, name = ''garden''\<rparr>],
      projectmembers = [\<lparr>oid = 30, group = 20, item = 10\<rparr>,
                        \<lparr>oid = 31, group = 21, item = 11\<rparr>,
                        \<lparr>oid = 32, group = 20, item = 12\<rparr>,
                        \<lparr>oid = 33, group = 21, item = 12\<rparr>],
      tasks = [\<lparr>oid = 40, description = ''design doc'', project = 20,
                 assignee = None, completion = False\<rparr>,
               \<lparr>oid = 41, description = ''plant seeds'', project = 21,
                 assignee = Some 12, completion = False\<rparr>],
      next_oid = 60\<rparr>"

definition empty_db :: database where
  "empty_db =
     \<lparr>projects = [], projectmembers = [], tasks = [], next_oid = 0\<rparr>"

text \<open>The database after user 10 has created a project with the empty name.\<close>

definition unnamed_db :: database where
  "unnamed_db =
     \<lparr>projects = [\<lparr>oid = 0, creator = 10, name = ''''\<rparr>],
      projectmembers = [\<lparr>oid = 1, group = 0, item = 10\<rparr>],
      tasks = [], next_oid = 2\<rparr>"

section \<open>What each operation computes\<close>

lemmas async_defs = resolve_def throw_def await_def attempt_def

lemma find_neq_None_iff: "(find P xs \<noteq> None) = (\<exists>x \<in> set xs. P x)"
  by (induction xs) auto

lemma find_append_fresh:
  "\<forall>d \<in> set ds. \<not> P d \<Longrightarrow> P x \<Longrightarrow> find P (ds @ [x]) = Some x"
  by (induction ds) auto

lemma find_update_first_oid:
  "(\<And>d. oid (upd d) = oid d) \<Longrightarrow>
   find (\<lambda>d. oid d = i) (update_first (\<lambda>d. oid d = i) upd ds)
     = map_option upd (find (\<lambda>d. oid d = i) ds)"
  by (induction ds) auto

lemma assertUserIsCreator_run:
  "assertUserIsCreator Project i u s =
     (case find (\<lambda>d. oid d = i) (projects s) of
        None \<Rightarrow> (Inl (NotFoundError [Lit ''Project '', Oid i, Lit '' does not exist!'']), s)
      | Some p \<Rightarrow> if creator p \<noteq> u then (Inl (UserCreatorNotMatchError u i), s) else (Inr (), s))"
  by (simp add: assertUserIsCreator_def readOne_def Project_def async_defs split: option.splits)

lemma assertProjectNameUnique_run:
  "assertProjectNameUnique Project nm s =
     (if \<exists>p \<in> set (projects s). name p = nm
      then (Inl (NotAllowedError [Lit ''Project with name '', Lit nm,
               Lit '' already exists! Please choose a different name.'']), s)
      else (Inr (), s))"
  by (simp add: assertProjectNameUnique_def readOne_def Project_def async_defs find_neq_None_iff
      del: not_None_eq)

lemma assertItemInGroup_run:
  "assertItemInGroup ProjectMember g i s =
     (if find (\<lambda>d. group d = g \<and> item d = i) (projectmembers s) = None
      then (Inl (NotFoundError [Lit ''Item '', Oid i, Lit '' not in group '', Oid g, Lit ''!'']), s)
      else (Inr (), s))"
  by (simp add: assertItemInGroup_def readOne_def ProjectMember_def async_defs)

lemma deleteAllItemsInGroup_ProjectMember_run:
  "deleteAllItemsInGroup ProjectMember g s =
     (Inr ''Deleted all instances of group!'',
      s\<lparr>projectmembers := filter (\<lambda>d. group d \<noteq> g) (projectmembers s)\<rparr>)"
  by (simp add: deleteAllItemsInGroup_def deleteMany_def await_def resolve_def ProjectMember_def)

text \<open>Every method call on the unbound \<open>TaskAssignee\<close> throws and writes nothing.\<close>

lemma invoke_TaskAssignee:
  "invoke TaskAssignee method s = (Inl TypeError, s)"
  by (simp add: invoke_def TaskAssignee_def throw_def)

text \<open>
  The loop of \<open>deleteProject\<close>: it runs through when the project has no task, and
  throws in its first round otherwise.
\<close>

lemma for_each_TaskAssignee:
  "for_each ts (\<lambda>t. invoke TaskAssignee (\<lambda>this. deleteAllItemsInGroup this (oid t))) s =
     (if ts = [] then (Inr (), s) else (Inl TypeError, s))"
proof (cases ts)
  case Nil
  then show ?thesis by (simp add: resolve_def)
next
  case (Cons t rest)
  have "invoke TaskAssignee (\<lambda>this. deleteAllItemsInGroup this (oid t)) s = (Inl TypeError, s)"
    by (rule invoke_TaskAssignee)
  then show ?thesis
    unfolding Cons for_each.simps await_def by simp
qed

lemma getAllTasksForProject_run:
  "getAllTasksForProject Task pr s = (Inr (filter (\<lambda>t. project t = pr) (tasks s)), s)"
  by (simp add: getAllTasksForProject_def readMany_def Task_def)

lemma deleteTasksForProject_run:
  "deleteTasksForProject Task pr s =
     (Inr ''Tasks for project successfully deleted.'',
      s\<lparr>tasks := filter (\<lambda>t. project t \<noteq> pr) (tasks s)\<rparr>)"
  by (simp add: deleteTasksForProject_def deleteMany_def await_def resolve_def Task_def)

lemma ProjectConcept_deleteProject_run:
  "ProjectConcept_deleteProject Project i s =
     (Inr ''Project successfully deleted!'',
      s\<lparr>projects := remove_first (\<lambda>d. oid d = i) (projects s)\<rparr>)"
  by (simp add: ProjectConcept_deleteProject_def deleteOne_def await_def resolve_def Project_def)

lemma getTask_run:
  "getTask Task i s = (Inr (find (\<lambda>d. oid d = i) (tasks s)), s)"
  by (simp add: getTask_def readOne_def Task_def)

lemmas cascade_runs = deleteAllItemsInGroup_ProjectMember_run for_each_TaskAssignee
  getAllTasksForProject_run deleteTasksForProject_run ProjectConcept_deleteProject_run

section \<open>Project deletion\<close>

text \<open>
  What \<open>deleteProject\<close> does for the creator of an existing project. The membership
  links of the project are removed first. When the project has no task, the loop over
  its tasks has no round, and the tasks (none) and the project record are deleted.
  When it has a task, the first round of the loop calls \<open>deleteAllItemsInGroup\<close> on
  the unbound \<open>TaskAssignee\<close> and throws: the route rejects, and the tasks and the
  project record stay, without their membership links.
\<close>

lemma deleteProject_by_creator:
  assumes "user session = Some u"
    and "find (\<lambda>d. oid d = pid) (projects s) = Some p"
    and "creator p = u"
  shows "deleteProject session (Hex pid) s =
     (if filter (\<lambda>t. project t = pid) (tasks s) = []
      then (Inr ''Project successfully deleted!'',
            s\<lparr>projectmembers := filter (\<lambda>d. group d \<noteq> pid) (projectmembers s),
              tasks := filter (\<lambda>t. project t \<noteq> pid) (tasks s),
              projects := remove_first (\<lambda>d. oid d = pid) (projects s)\<rparr>)
      else (Inl TypeError,
            s\<lparr>projectmembers := filter (\<lambda>d. group d \<noteq> pid) (projectmembers s)\<rparr>))"
  using assms
  by (simp add: deleteProject_def Sessioning_getUser_def assertUserIsCreator_run
      cascade_runs attempt_def await_def)

text \<open>
  Claim C1 fails on the code. In the example database user 10 is the creator of
  project 20, which has task 40. The creator's request to delete project 20 removes
  the two membership links of the project and is then rejected with a TypeError:
  project 20 and task 40 are still there.
\<close>

theorem deleteProject_stops_at_first_task:
  "deleteProject \<lparr>user = Some 10\<rparr> (Hex 20) example_db =
     (Inl TypeError,
      \<lparr>projects = [\<lparr>oid = 20, creator = 10, name = ''roadmap''\<rparr>,
                   \<lparr>oid = 21, creator = 11, name = ''garden''\<rparr>],
       projectmembers = [\<lparr>oid = 31, group = 21, item = 11\<rparr>,
                         \<lparr>oid = 33, group = 21, item = 12\<rparr>],
       tasks = [\<lparr>oid = 40, description = ''design doc'', project = 20,
                  assignee = None, completion = False\<rparr>,
                \<lparr>oid = 41, description = ''plant seeds'', project = 21,
                  assignee = Some 12, completion = False\<rparr>],
       next_oid = 60\<rparr>)"
proof -
  have h1: "user \<lparr>user = Some 10\<rparr> = Some 10"
    by simp
  have h2: "find (\<lambda>d. oid d = 20) (projects example_db)
      = Some \<lparr>oid = 20, creator = 10, name = ''roadmap''\<rparr>"
    by (simp add: example_db_def)
  have h3: "creator \<lparr>oid = 20, creator = 10, name = ''roadmap''\<rparr> = 10"
    by simp
  show ?thesis
    unfolding deleteProject_by_creator [OF h1 h2 h3] by (simp add: example_db_def)
qed

section \<open>Only the creator changes a project\<close>

text \<open>
  Claim C2, as stated, fails for a member text that is no identifier: the two member
  routes build the member's identifier before they check the creator. In the example
  database user 12 is not the creator of project 20, and the request of user 12 to add
  a member given by such a text is rejected by the identifier constructor, not with
  the creator-mismatch error.
\<close>

theorem non_creator_malformed_member_counterexample:
  "user \<lparr>user = Some 12\<rparr> = Some 12
   \<and> find (\<lambda>d. oid d = 20) (projects example_db)
       = Some \<lparr>oid = 20, creator = 10, name = ''roadmap''\<rparr>
   \<and> creator \<lparr>oid = 20, creator = 10, name = ''roadmap''\<rparr> \<noteq> 12
   \<and> addMemberToProject \<lparr>user = Some 12\<rparr> (Hex 20) (Malformed ''not an id'') example_db
       = (Inl BSONError, example_db)
   \<and> BSONError \<noteq> UserCreatorNotMatchError 12 20"
  by (simp add: example_db_def addMemberToProject_def Sessioning_getUser_def
      attempt_def throw_def)

text \<open>
  Claim C2, amended. Let the session user be logged in and not the creator of an
  existing project. Then each of the routes delete project, rename project, add member,
  remove member and create task on that project, and each of the routes delete task and
  update task description on a task of that project, called with the texts of
  identifiers, rejects with the creator-mismatch error for that user and project and
  returns the database as it was. Add member and remove member called with a member
  text that is no identifier reject with the error of the identifier constructor
  instead, and return the database as it was too.
\<close>

theorem non_creator_forbidden:
  assumes "user session = Some u"
    and "find (\<lambda>d. oid d = pid) (projects s) = Some p"
    and "creator p \<noteq> u"
  shows "deleteProject session (Hex pid) s = (Inl (UserCreatorNotMatchError u pid), s)
    \<and> updateProjectName session (Hex pid) nm s = (Inl (UserCreatorNotMatchError u pid), s)
    \<and> addMemberToProject session (Hex pid) (Hex m) s = (Inl (UserCreatorNotMatchError u pid), s)
    \<and> deleteMemberFromProject session (Hex pid) (Hex m) s
        = (Inl (UserCreatorNotMatchError u pid), s)
    \<and> createTask session (Hex pid) descr asg s = (Inl (UserCreatorNotMatchError u pid), s)
    \<and> (\<forall>t. find (\<lambda>d. oid d = tid) (tasks s) = Some t \<and> project t = pid \<longrightarrow>
          deleteTask session (Hex tid) s = (Inl (UserCreatorNotMatchError u pid), s)
        \<and> updateTaskDescription session (Hex tid) descr s
            = (Inl (UserCreatorNotMatchError u pid), s))
    \<and> addMemberToProject session (Hex pid) (Malformed bad) s = (Inl BSONError, s)
    \<and> deleteMemberFromProject session (Hex pid) (Malformed bad) s = (Inl BSONError, s)"
  using assms
  by (auto simp: deleteProject_def updateProjectName_def addMemberToProject_def
      deleteMemberFromProject_def createTask_def deleteTask_def updateTaskDescription_def
      Sessioning_getUser_def assertUserIsCreator_run getTask_run attempt_def await_def throw_def)

theorem non_creator_forbidden_witness:
  "user \<lparr>user = Some 12\<rparr> = Some 12
   \<and> find (\<lambda>d. oid d = 20) (projects example_db)
       = Some \<lparr>oid = 20, creator = 10, name = ''roadmap''\<rparr>
   \<and> creator \<lparr>oid = 20, creator = 10, name = ''roadmap''\<rparr> \<noteq> 12
   \<and> find (\<lambda>d. oid d = 40) (tasks example_db)
       = Some \<lparr>oid = 40, description = ''design doc'', project = 20,
                assignee = None, completion = False\<rparr>
   \<and> deleteProject \<lparr>user = Some 12\<rparr> (Hex 20) example_db
       = (Inl (UserCreatorNotMatchError 12 20), example_db)
   \<and> addMemberToProject \<lparr>user = Some 12\<rparr> (Hex 20) (Hex 13) example_db
       = (Inl (UserCreatorNotMatchError 12 20), example_db)
   \<and> deleteTask \<lparr>user = Some 12\<rparr> (Hex 40) example_db
       = (Inl (UserCreatorNotMatchError 12 20), example_db)
   \<and> deleteMemberFromProject \<lparr>user = Some 12\<rparr> (Hex 20) (Malformed ''not an id'') example_db
       = (Inl BSONError, example_db)"
  using non_creator_forbidden [where session = "\<lparr>user = Some 12\<rparr>" and u = 12 and pid = 20
      and s = example_db and p = "\<lparr>oid = 20, creator = 10, name = ''roadmap''\<rparr>"
      and m = 13 and tid = 40 and bad = "''not an id''"]
  by (simp add: example_db_def)

section \<open>Assigning a user who is not a member\<close>

text \<open>
  Adding an assignee to an existing task. The route asserts the creator and makes no
  membership assertion; for the creator it then calls \<open>addGroupItem\<close> on the unbound
  \<open>TaskAssignee\<close>, so the request is rejected with a TypeError for every assignee,
  member or not, and nothing is written.
\<close>

lemma addTaskAssignee_by_creator:
  assumes "user session = Some u"
    and "find (\<lambda>d. oid d = tid) (tasks s) = Some t"
    and "find (\<lambda>d. oid d = project t) (projects s) = Some p"
    and "creator p = u"
  shows "addTaskAssignee session (Hex tid) (Hex a) s = (Inl TypeError, s)"
  using assms
  by (simp add: addTaskAssignee_def Sessioning_getUser_def getTask_run assertUserIsCreator_run
      invoke_TaskAssignee async_defs)

text \<open>
  Claim C3. Let a user be no member of a project. Task creation in that project with
  that user as the assignee is rejected, whoever calls it, and leaves the membership
  links, the only group items of the database, as they were. Adding that user as an
  assignee to any task is rejected and returns the database as it was. No request
  creates an assignee link: the database has no collection of them.
\<close>

theorem assigning_non_member_rejected:
  assumes "\<not> (\<exists>d \<in> set (projectmembers s). group d = pid \<and> item d = a)"
  shows "(\<exists>e. fst (createTask session (Hex pid) descr (Some (Hex a)) s) = Inl e)
    \<and> projectmembers (snd (createTask session (Hex pid) descr (Some (Hex a)) s))
        = projectmembers s
    \<and> (\<exists>e. fst (addTaskAssignee session task (Hex a) s) = Inl e)
    \<and> snd (addTaskAssignee session task (Hex a) s) = s"
proof -
  have create: "(\<exists>e. fst (createTask session (Hex pid) descr (Some (Hex a)) s) = Inl e)
    \<and> projectmembers (snd (createTask session (Hex pid) descr (Some (Hex a)) s))
        = projectmembers s"
    using assms
    by (auto simp: createTask_def Sessioning_getUser_def assertUserIsCreator_run
        assertItemInGroup_run TaskingConcept_create_def createOne_def readOne_def Task_def
        async_defs find_None_iff Let_def split: option.splits)
  have add: "(\<exists>e. fst (addTaskAssignee session task (Hex a) s) = Inl e)
    \<and> snd (addTaskAssignee session task (Hex a) s) = s"
    by (cases task)
      (auto simp: addTaskAssignee_def Sessioning_getUser_def getTask_run assertUserIsCreator_run
        invoke_TaskAssignee async_defs split: option.splits)
  show ?thesis
    using create add by simp
qed

theorem assigning_non_member_rejected_witness:
  "\<not> (\<exists>d \<in> set (projectmembers example_db). group d = 20 \<and> item d = 13)
   \<and> createTask \<lparr>user = Some 10\<rparr> (Hex 20) ''review'' (Some (Hex 13)) example_db =
       (Inl (NotFoundError [Lit ''Item '', Oid 13, Lit '' not in group '', Oid 20, Lit ''!'']),
        example_db\<lparr>tasks := tasks example_db
                             @ [\<lparr>oid = 60, description = ''review'', project = 20,
                                 assignee = None, completion = False\<rparr>],
                   next_oid := 61\<rparr>)
   \<and> projectmembers (snd (createTask \<lparr>user = Some 10\<rparr> (Hex 20) ''review'' (Some (Hex 13))
        example_db)) = projectmembers example_db
   \<and> addTaskAssignee \<lparr>user = Some 10\<rparr> (Hex 40) (Hex 13) example_db = (Inl TypeError, example_db)"
proof -
  have out: "\<not> (\<exists>d \<in> set (projectmembers example_db). group d = 20 \<and> item d = 13)"
    by (simp add: example_db_def)
  note claim = assigning_non_member_rejected [OF out, of "\<lparr>user = Some 10\<rparr>" "''review''" "Hex 40"]
  have created: "createTask \<lparr>user = Some 10\<rparr> (Hex 20) ''review'' (Some (Hex 13)) example_db =
       (Inl (NotFoundError [Lit ''Item '', Oid 13, Lit '' not in group '', Oid 20, Lit ''!'']),
        example_db\<lparr>tasks := tasks example_db
                             @ [\<lparr>oid = 60, description = ''review'', project = 20,
                                 assignee = None, completion = False\<rparr>],
                   next_oid := 61\<rparr>)"
    by (simp add: createTask_def Sessioning_getUser_def assertUserIsCreator_run
        async_defs example_db_def)
      (simp add: TaskingConcept_create_def createOne_def readOne_def Task_def
        assertItemInGroup_run async_defs)
  have added: "addTaskAssignee \<lparr>user = Some 10\<rparr> (Hex 40) (Hex 13) example_db
      = (Inl TypeError, example_db)"
  proof -
    have u: "user \<lparr>user = Some 10\<rparr> = Some 10"
      by simp
    have t: "find (\<lambda>d. oid d = 40) (tasks example_db)
        = Some \<lparr>oid = 40, description = ''design doc'', project = 20,
                 assignee = None, completion = False\<rparr>"
      by (simp add: example_db_def)
    have p: "find (\<lambda>d. oid d = project \<lparr>oid = 40, description = ''design doc'', project = 20,
                 assignee = None, completion = False\<rparr>) (projects example_db)
        = Some \<lparr>oid = 20, creator = 10, name = ''roadmap''\<rparr>"
      by (simp add: example_db_def)
    have c: "creator \<lparr>oid = 20, creator = 10, name = ''roadmap''\<rparr> = 10"
      by simp
    show ?thesis
      by (rule addTaskAssignee_by_creator [OF u t p c])
  qed
  show ?thesis
    using out claim created added by simp
qed

section \<open>Project names\<close>

text \<open>
  Claim C4. \<open>create\<close> of the project concept rejects with the NotAllowed error and
  returns the database unchanged when some project has exactly the given name.
  Otherwise it appends one project with the given creator and name, under the next
  fresh identifier, and resolves with the project read back under that identifier,
  which is the new project when no older project has that identifier. In both
  cases, if the names of the projects were pairwise different before, they are
  pairwise different afterwards.
\<close>

theorem ProjectConcept_create_unique_name:
  "((\<exists>p \<in> set (projects s). name p = nm) \<longrightarrow>
      ProjectConcept_create Project cr nm s =
        (Inl (NotAllowedError [Lit ''Project with name '', Lit nm,
                Lit '' already exists! Please choose a different name.'']), s))
   \<and> (\<not> (\<exists>p \<in> set (projects s). name p = nm) \<longrightarrow>
      ProjectConcept_create Project cr nm s =
        (Inr (''Project successfully created!'',
              find (\<lambda>d. oid d = next_oid s)
                (projects s @ [\<lparr>oid = next_oid s, creator = cr, name = nm\<rparr>])),
         s\<lparr>projects := projects s @ [\<lparr>oid = next_oid s, creator = cr, name = nm\<rparr>],
           next_oid := Suc (next_oid s)\<rparr>))
   \<and> (\<not> (\<exists>p \<in> set (projects s). oid p = next_oid s) \<longrightarrow>
        find (\<lambda>d. oid d = next_oid s)
          (projects s @ [\<lparr>oid = next_oid s, creator = cr, name = nm\<rparr>])
        = Some \<lparr>oid = next_oid s, creator = cr, name = nm\<rparr>)
   \<and> (distinct (map name (projects s)) \<longrightarrow>
        distinct (map name (projects (snd (ProjectConcept_create Project cr nm s)))))"
proof -
  have run: "ProjectConcept_create Project cr nm s =
     (if \<exists>p \<in> set (projects s). name p = nm
      then (Inl (NotAllowedError [Lit ''Project with name '', Lit nm,
               Lit '' already exists! Please choose a different name.'']), s)
      else (Inr (''Project successfully created!'',
              find (\<lambda>d. oid d = next_oid s)
                (projects s @ [\<lparr>oid = next_oid s, creator = cr, name = nm\<rparr>])),
         s\<lparr>projects := projects s @ [\<lparr>oid = next_oid s, creator = cr, name = nm\<rparr>],
           next_oid := Suc (next_oid s)\<rparr>))"
    by (simp add: ProjectConcept_create_def assertProjectNameUnique_run await_def)
      (simp add: createOne_def readOne_def Project_def await_def resolve_def Let_def)
  show ?thesis
    unfolding run by (auto simp: find_append_fresh)
qed

theorem ProjectConcept_create_unique_name_witness:
  "(\<exists>p \<in> set (projects example_db). name p = ''roadmap'')
   \<and> ProjectConcept_create Project 12 ''roadmap'' example_db =
       (Inl (NotAllowedError [Lit ''Project with name '', Lit ''roadmap'',
               Lit '' already exists! Please choose a different name.'']), example_db)
   \<and> \<not> (\<exists>p \<in> set (projects example_db). name p = ''orchard'')
   \<and> \<not> (\<exists>p \<in> set (projects example_db). oid p = next_oid example_db)
   \<and> ProjectConcept_create Project 12 ''orchard'' example_db =
       (Inr (''Project successfully created!'',
             Some \<lparr>oid = 60, creator = 12, name = ''orchard''\<rparr>),
        example_db\<lparr>projects := projects example_db
                                 @ [\<lparr>oid = 60, creator = 12, name = ''orchard''\<rparr>],
                   next_oid := 61\<rparr>)
   \<and> distinct (map name (projects example_db))
   \<and> distinct (map name (projects (snd (ProjectConcept_create Project 12 ''orchard'' example_db))))"
proof -
  have taken: "\<exists>p \<in> set (projects example_db). name p = ''roadmap''"
    by (simp add: example_db_def)
  have free: "\<not> (\<exists>p \<in> set (projects example_db). name p = ''orchard'')"
    by (simp add: example_db_def)
  have fresh: "\<not> (\<exists>p \<in> set (projects example_db). oid p = next_oid example_db)"
    by (simp add: example_db_def)
  have dist: "distinct (map name (projects example_db))"
    by (simp add: example_db_def)
  note rejected = ProjectConcept_create_unique_name
    [where s = example_db and nm = "''roadmap''" and cr = 12, THEN conjunct1, rule_format, OF taken]
  note all = ProjectConcept_create_unique_name [where s = example_db and nm = "''orchard''" and cr = 12]
  note created = all [THEN conjunct2, THEN conjunct1, rule_format, OF free]
  note read_back = all [THEN conjunct2, THEN conjunct2, THEN conjunct1, rule_format, OF fresh]
  note still = all [THEN conjunct2, THEN conjunct2, THEN conjunct2, rule_format, OF dist]
  have n: "next_oid example_db = 60"
    by (simp add: example_db_def)
  have created': "ProjectConcept_create Project 12 ''orchard'' example_db =
       (Inr (''Project successfully created!'',
             Some \<lparr>oid = 60, creator = 12, name = ''orchard''\<rparr>),
        example_db\<lparr>projects := projects example_db
                                 @ [\<lparr>oid = 60, creator = 12, name = ''orchard''\<rparr>],
                   next_oid := 61\<rparr>)"
    using created read_back by (simp add: n)
  show ?thesis
    by (intro conjI) (fact taken rejected free fresh created' dist still)+
qed

text \<open>
  Claim C10. \<open>updateProjectName\<close> of the project concept rejects with the NotAllowed
  error and returns the database unchanged whenever some project has the requested
  name. The project being renamed is one of them when the requested name is its own:
  renaming any existing project to its current name is rejected and nothing changes.
\<close>

theorem updateProjectName_rejects_taken_name:
  "((\<exists>p \<in> set (projects s). name p = nm) \<longrightarrow>
      ProjectConcept_updateProjectName Project i nm s =
        (Inl (NotAllowedError [Lit ''Project with name '', Lit nm,
                Lit '' already exists! Please choose a different name.'']), s))
   \<and> (p \<in> set (projects s) \<longrightarrow>
      ProjectConcept_updateProjectName Project (oid p) (name p) s =
        (Inl (NotAllowedError [Lit ''Project with name '', Lit (name p),
                Lit '' already exists! Please choose a different name.'']), s))"
  by (auto simp: ProjectConcept_updateProjectName_def assertProjectNameUnique_run await_def)

theorem updateProjectName_rejects_taken_name_witness:
  "\<lparr>oid = 20, creator = 10, name = ''roadmap''\<rparr> \<in> set (projects example_db)
   \<and> ProjectConcept_updateProjectName Project 20 ''roadmap'' example_db =
        (Inl (NotAllowedError [Lit ''Project with name '', Lit ''roadmap'',
                Lit '' already exists! Please choose a different name.'']), example_db)"
proof -
  have here: "\<lparr>oid = 20, creator = 10, name = ''roadmap''\<rparr> \<in> set (projects example_db)"
    by (simp add: example_db_def)
  note rejected = updateProjectName_rejects_taken_name
    [where s = example_db and p = "\<lparr>oid = 20, creator = 10, name = ''roadmap''\<rparr>",
     THEN conjunct2, rule_format, OF here]
  show ?thesis
    using here rejected by simp
qed

section \<open>Unassigning a task\<close>

text \<open>
  Claim C5. When \<open>getTask\<close> finds a task under an identifier, \<open>unassignTask\<close> of the
  tasking concept resolves, and \<open>getTask\<close> on the same identifier afterwards finds
  that task with the assignee absent and with the description, the project and the
  completion flag it had.
\<close>

theorem unassignTask_clears_assignee:
  assumes "fst (getTask Task i s) = Inr (Some t)"
  shows "fst (TaskingConcept_unassignTask Task i s)
        = Inr ''TODO: partial update to null or undefined?''
    \<and> (\<exists>t'. fst (getTask Task i (snd (TaskingConcept_unassignTask Task i s))) = Inr (Some t')
          \<and> t' = t\<lparr>assignee := None\<rparr>
          \<and> assignee t' = None
          \<and> description t' = description t
          \<and> project t' = project t
          \<and> completion t' = completion t)"
  using assms
  by (simp add: TaskingConcept_unassignTask_def getTask_run await_def)
    (simp add: partialUpdateOne_def Task_def resolve_def find_update_first_oid)

theorem unassignTask_clears_assignee_witness:
  "fst (getTask Task 41 example_db) =
      Inr (Some \<lparr>oid = 41, description = ''plant seeds'', project = 21,
                  assignee = Some 12, completion = False\<rparr>)
   \<and> fst (getTask Task 41 (snd (TaskingConcept_unassignTask Task 41 example_db))) =
      Inr (Some \<lparr>oid = 41, description = ''plant seeds'', project = 21,
                  assignee = None, completion = False\<rparr>)"
proof -
  have found: "fst (getTask Task 41 example_db) =
      Inr (Some \<lparr>oid = 41, description = ''plant seeds'', project = 21,
                  assignee = Some 12, completion = False\<rparr>)"
    by (simp add: getTask_run example_db_def)
  from unassignTask_clears_assignee [OF found]
  have "fst (getTask Task 41 (snd (TaskingConcept_unassignTask Task 41 example_db))) =
      Inr (Some (\<lparr>oid = 41, description = ''plant seeds'', project = 21,
                  assignee = Some 12, completion = False\<rparr>\<lparr>assignee := None\<rparr>))"
    by blast
  then show ?thesis
    using found by simp
qed

section \<open>Group membership\<close>

text \<open>
  Claim C6. For every instance of the grouping concept, group and item,
  \<open>assertItemInGroup\<close> rejects with the NotFound error exactly when the collection has
  no record with that group and that item, resolves exactly when it has one, and
  returns the database unchanged in both cases.
\<close>

theorem assertItemInGroup_NotFound_iff:
  "(fst (assertItemInGroup this g i s) =
      Inl (NotFoundError [Lit ''Item '', Oid i, Lit '' not in group '', Oid g, Lit ''!'']))
     = (\<not> (\<exists>d \<in> set (docs_of this s). group d = g \<and> item d = i))
   \<and> (fst (assertItemInGroup this g i s) = Inr ())
     = (\<exists>d \<in> set (docs_of this s). group d = g \<and> item d = i)
   \<and> snd (assertItemInGroup this g i s) = s"
  by (auto simp: assertItemInGroup_def async_defs readOne_def find_None_iff)

theorem assertItemInGroup_NotFound_iff_witness:
  "\<not> (\<exists>d \<in> set (docs_of ProjectMember example_db). group d = 20 \<and> item d = 13)
   \<and> fst (assertItemInGroup ProjectMember 20 13 example_db) =
      Inl (NotFoundError [Lit ''Item '', Oid 13, Lit '' not in group '', Oid 20, Lit ''!''])
   \<and> (\<exists>d \<in> set (docs_of ProjectMember example_db). group d = 20 \<and> item d = 12)
   \<and> fst (assertItemInGroup ProjectMember 20 12 example_db) = Inr ()
   \<and> snd (assertItemInGroup ProjectMember 20 12 example_db) = example_db"
proof -
  have absent: "\<not> (\<exists>d \<in> set (docs_of ProjectMember example_db). group d = 20 \<and> item d = 13)"
    by (simp add: ProjectMember_def example_db_def)
  have present: "\<exists>d \<in> set (docs_of ProjectMember example_db). group d = 20 \<and> item d = 12"
    by (simp add: ProjectMember_def example_db_def)
  note a = assertItemInGroup_NotFound_iff [of ProjectMember 20 13 example_db]
  note b = assertItemInGroup_NotFound_iff [of ProjectMember 20 12 example_db]
  show ?thesis
    using absent present a b by blast
qed

text \<open>
  Claim C7. \<open>addGroupItem\<close> reads nothing before it writes: on the instance of
  the application, for every group, item and database, it resolves and appends one record
  under the next fresh identifier, which is a record the collection did not hold when
  all identifiers in it are older. Called twice with the same pair it appends two
  records with that pair and different identifiers.
\<close>

theorem addGroupItem_not_idempotent:
  assumes "this = ProjectMember"
  shows "fst (addGroupItem this g i s) = Inr ''Added item to group!''
    \<and> docs_of this (snd (addGroupItem this g i s))
        = docs_of this s @ [\<lparr>oid = next_oid s, group = g, item = i\<rparr>]
    \<and> ((\<forall>d \<in> set (docs_of this s). oid d < next_oid s) \<longrightarrow>
         \<lparr>oid = next_oid s, group = g, item = i\<rparr> \<notin> set (docs_of this s))
    \<and> fst (addGroupItem this g i (snd (addGroupItem this g i s))) = Inr ''Added item to group!''
    \<and> docs_of this (snd (addGroupItem this g i (snd (addGroupItem this g i s))))
        = docs_of this s @ [\<lparr>oid = next_oid s, group = g, item = i\<rparr>,
                            \<lparr>oid = Suc (next_oid s), group = g, item = i\<rparr>]
    \<and> \<lparr>oid = next_oid s, group = g, item = i\<rparr> \<noteq> \<lparr>oid = Suc (next_oid s), group = g, item = i\<rparr>"
  using assms
  by (auto simp: addGroupItem_def async_defs createOne_def ProjectMember_def Let_def)

theorem addGroupItem_not_idempotent_witness:
  "ProjectMember = ProjectMember
   \<and> docs_of ProjectMember example_db =
       [\<lparr>oid = 30, group = 20, item = 10\<rparr>, \<lparr>oid = 31, group = 21, item = 11\<rparr>,
        \<lparr>oid = 32, group = 20, item = 12\<rparr>, \<lparr>oid = 33, group = 21, item = 12\<rparr>]
   \<and> docs_of ProjectMember
        (snd (addGroupItem ProjectMember 20 12 (snd (addGroupItem ProjectMember 20 12 example_db)))) =
       [\<lparr>oid = 30, group = 20, item = 10\<rparr>, \<lparr>oid = 31, group = 21, item = 11\<rparr>,
        \<lparr>oid = 32, group = 20, item = 12\<rparr>, \<lparr>oid = 33, group = 21, item = 12\<rparr>,
        \<lparr>oid = 60, group = 20, item = 12\<rparr>, \<lparr>oid = 61, group = 20, item = 12\<rparr>]"
proof -
  have inst: "ProjectMember = ProjectMember"
    by simp
  have before: "docs_of ProjectMember example_db =
       [\<lparr>oid = 30, group = 20, item = 10\<rparr>, \<lparr>oid = 31, group = 21, item = 11\<rparr>,
        \<lparr>oid = 32, group = 20, item = 12\<rparr>, \<lparr>oid = 33, group = 21, item = 12\<rparr>]"
    by (simp add: ProjectMember_def example_db_def)
  have n: "next_oid example_db = 60"
    by (simp add: example_db_def)
  note twice = addGroupItem_not_idempotent [OF inst, of 20 12 example_db,
      THEN conjunct2, THEN conjunct2, THEN conjunct2, THEN conjunct2, THEN conjunct1]
  show ?thesis
    using inst before twice by (simp add: n)
qed

section \<open>Removing a member\<close>

text \<open>
  What \<open>deleteMemberFromProject\<close> does for the creator of an existing project: after
  the creator check it calls \<open>deleteItemFromAllGroups\<close> on the unbound
  \<open>TaskAssignee\<close> and throws, before the membership link is removed.
\<close>

lemma deleteMemberFromProject_by_creator:
  assumes "user session = Some u"
    and "find (\<lambda>d. oid d = pid) (projects s) = Some p"
    and "creator p = u"
  shows "deleteMemberFromProject session (Hex pid) (Hex m) s = (Inl TypeError, s)"
  using assms
  by (simp add: deleteMemberFromProject_def Sessioning_getUser_def assertUserIsCreator_run
      invoke_TaskAssignee async_defs)

text \<open>
  Claim C8 fails on the code. In the example database user 10 is the creator of
  project 20 and user 12 is a member of it. The creator's request to remove user 12
  from project 20 is rejected with a TypeError and changes nothing: the membership
  link of user 12 is still there, and no assignee link was looked for.
\<close>

theorem deleteMemberFromProject_removes_nothing:
  "\<lparr>oid = 32, group = 20, item = 12\<rparr> \<in> set (projectmembers example_db)
   \<and> deleteMemberFromProject \<lparr>user = Some 10\<rparr> (Hex 20) (Hex 12) example_db
       = (Inl TypeError, example_db)"
proof -
  have member: "\<lparr>oid = 32, group = 20, item = 12\<rparr> \<in> set (projectmembers example_db)"
    by (simp add: example_db_def)
  have h1: "user \<lparr>user = Some 10\<rparr> = Some 10"
    by simp
  have h2: "find (\<lambda>d. oid d = 20) (projects example_db)
      = Some \<lparr>oid = 20, creator = 10, name = ''roadmap''\<rparr>"
    by (simp add: example_db_def)
  have h3: "creator \<lparr>oid = 20, creator = 10, name = ''roadmap''\<rparr> = 10"
    by simp
  have "deleteMemberFromProject \<lparr>user = Some 10\<rparr> (Hex 20) (Hex 12) example_db
      = (Inl TypeError, example_db)"
    by (rule deleteMemberFromProject_by_creator [OF h1 h2 h3])
  then show ?thesis
    using member by simp
qed

section \<open>Fetching a project\<close>

text \<open>
  Claim C9, as stated, fails for a project whose name is the empty string: the route
  takes an empty name for a missing one. User 10 creates such a project in the empty
  database; the request for it by its name is then rejected with ``Did not specify
  project to fetch!''.
\<close>

theorem getProject_by_name_counterexample:
  "createProject \<lparr>user = Some 10\<rparr> '''' empty_db =
     (Inr (''Successfully created project!'', Some \<lparr>oid = 0, creator = 10, name = ''''\<rparr>),
      unnamed_db)
   \<and> \<lparr>oid = 0, creator = 10, name = ''''\<rparr> \<in> set (projects unnamed_db)
   \<and> getProject \<lparr>user = Some 10\<rparr> (Some (name \<lparr>oid = 0, creator = 10, name = ''''\<rparr>)) None
        unnamed_db
      = (Inl (NotAllowedError [Lit ''Did not specify project to fetch!'']), unnamed_db)"
proof -
  have "createProject \<lparr>user = Some 10\<rparr> '''' empty_db =
     (Inr (''Successfully created project!'', Some \<lparr>oid = 0, creator = 10, name = ''''\<rparr>),
      unnamed_db)"
    by (simp add: createProject_def ProjectConcept_create_def assertProjectNameUnique_run
        Sessioning_getUser_def async_defs empty_db_def)
      (simp add: addGroupItem_def createOne_def readOne_def
        Project_def ProjectMember_def async_defs unnamed_db_def)
  then show ?thesis
    by (simp add: unnamed_db_def getProject_def Sessioning_getUser_def async_defs)
qed

text \<open>
  Claim C9, amended. For every logged-in user and every existing project whose name
  is not empty, the request by that name (with no identifier, or an empty one)
  resolves with the projects of that name, the project among them, whether or not the
  user is a member; the request for the same project by its identifier is rejected
  with the NotFound error when the user is not a member of it. Neither changes the
  database.
\<close>

theorem getProject_membership_only_by_id:
  assumes "user session = Some u" and "p \<in> set (projects s)"
  shows "(name p \<noteq> [] \<and> truthy_id ident = None \<longrightarrow>
        getProject session (Some (name p)) ident s =
          (Inr (Inr (filter (\<lambda>d. name d = name p) (projects s))), s)
        \<and> p \<in> set (filter (\<lambda>d. name d = name p) (projects s)))
    \<and> (\<not> (\<exists>d \<in> set (projectmembers s). group d = oid p \<and> item d = u) \<longrightarrow>
        getProject session nm (Some (Hex (oid p))) s =
          (Inl (NotFoundError
                 [Lit ''Item '', Oid u, Lit '' not in group '', Oid (oid p), Lit ''!'']), s))"
proof -
  have "name p \<noteq> [] \<Longrightarrow> truthy_string (Some (name p)) = Some (name p)"
    by (cases "name p") simp_all
  then show ?thesis
    using assms
    by (auto simp: getProject_def Sessioning_getUser_def assertItemInGroup_run
        getProjectByName_def readMany_def Project_def async_defs find_None_iff)
qed

theorem getProject_membership_only_by_id_witness:
  "user \<lparr>user = Some 13\<rparr> = Some 13
   \<and> \<lparr>oid = 20, creator = 10, name = ''roadmap''\<rparr> \<in> set (projects example_db)
   \<and> \<not> (\<exists>d \<in> set (projectmembers example_db). group d = 20 \<and> item d = 13)
   \<and> getProject \<lparr>user = Some 13\<rparr> (Some ''roadmap'') None example_db =
       (Inr (Inr [\<lparr>oid = 20, creator = 10, name = ''roadmap''\<rparr>]), example_db)
   \<and> getProject \<lparr>user = Some 13\<rparr> (Some ''roadmap'') (Some (Hex 20)) example_db =
       (Inl (NotFoundError [Lit ''Item '', Oid 13, Lit '' not in group '', Oid 20, Lit ''!'']),
        example_db)"
proof -
  have h1: "user \<lparr>user = Some 13\<rparr> = Some 13"
    by simp
  have h2: "\<lparr>oid = 20, creator = 10, name = ''roadmap''\<rparr> \<in> set (projects example_db)"
    by (simp add: example_db_def)
  have h3: "\<not> (\<exists>d \<in> set (projectmembers example_db). group d = 20 \<and> item d = 13)"
    by (simp add: example_db_def)
  note both = getProject_membership_only_by_id [OF h1 h2]
  have by_name: "getProject \<lparr>user = Some 13\<rparr> (Some ''roadmap'') None example_db =
       (Inr (Inr (filter (\<lambda>d. name d = ''roadmap'') (projects example_db))), example_db)"
    using both [of None] by simp
  have by_id: "getProject \<lparr>user = Some 13\<rparr> (Some ''roadmap'') (Some (Hex 20)) example_db =
       (Inl (NotFoundError [Lit ''Item '', Oid 13, Lit '' not in group '', Oid 20, Lit ''!'']),
        example_db)"
    using both [of None "Some ''roadmap''"] h3 by simp
  have "filter (\<lambda>d. name d = ''roadmap'') (projects example_db)
      = [\<lparr>oid = 20, creator = 10, name = ''roadmap''\<rparr>]"
    by (simp add: example_db_def)
  then show ?thesis
    using h1 h2 h3 by_name by_id by simp
qed

end
